theory Spec2Isabelle
  imports Complex_Main
begin

section \<open>gotirc: a Twitch IRC client (client.go)\<close>

text \<open>
  The client of \<^verbatim>\<open>client.go\<close> is embedded as pure functions over an explicit client
  state. Strings are byte lists, as Go's \<^verbatim>\<open>string\<close> is. Run-time panics, error
  returns and the effects on the transport are values of the model.
\<close>

subsection \<open>Go library functions used by the client\<close>

text \<open>\<^verbatim>\<open>strings.HasPrefix\<close>, \<^verbatim>\<open>strings.HasSuffix\<close> and \<^verbatim>\<open>strings.Join\<close>.\<close>

definition HasPrefix :: "string \<Rightarrow> string \<Rightarrow> bool" where
  "HasPrefix s pre = (take (length pre) s = pre)"

definition HasSuffix :: "string \<Rightarrow> string \<Rightarrow> bool" where
  "HasSuffix s suf = (length suf \<le> length s \<and> drop (length s - length suf) s = suf)"

fun Join_strings :: "string list \<Rightarrow> string \<Rightarrow> string" where
  "Join_strings [] sep = []"
| "Join_strings [x] sep = x"
| "Join_strings (x # y # ys) sep = x @ sep @ Join_strings (y # ys) sep"

text \<open>
  \<^verbatim>\<open>fmt.Sprintf(format)\<close> called with a format and no operands, which is what
  \<^verbatim>\<open>send\<close> does when its caller passes an already formatted line. Text outside
  directives is copied; \<^verbatim>\<open>%%\<close> prints one percent sign; a percent sign at the end
  of the format prints \<^verbatim>\<open>%!(NOVERB)\<close>; a percent sign followed by a verb \<open>v\<close>
  prints \<^verbatim>\<open>%!v(MISSING)\<close>, since there is no operand for it. Flags, widths,
  precisions, argument indexes and verbs outside ASCII are not told apart from
  verbs here: the model is exact on formats whose percent signs are followed by
  the end of the format, a percent sign or an ASCII letter.
\<close>

fun Sprintf0 :: "string \<Rightarrow> string" where
  "Sprintf0 [] = []"
| "Sprintf0 [c] = (if c = CHR ''%'' then ''%!(NOVERB)'' else [c])"
| "Sprintf0 (c # v # rest) =
     (if c \<noteq> CHR ''%'' then c # Sprintf0 (v # rest)
      else if v = CHR ''%'' then CHR ''%'' # Sprintf0 rest
      else ''%!'' @ [v] @ ''(MISSING)'' @ Sprintf0 rest)"

subsection \<open>Data model\<close>

text \<open>
  Run-time panics of the Go program. An index out of range carries the index
  that failed.
\<close>

datatype panic =
    IndexOutOfRange nat
  | SliceBoundsOutOfRange
  | SendOnClosedChannel
  | CloseOfNilChannel
  | CloseOfClosedChannel
  | NilDereference

text \<open>Errors returned by \<^verbatim>\<open>Connect\<close>.\<close>

datatype error =
    AlreadyConnected
  | DialError string
  | WriteError
  | ReadError
  | UnexpectedResponse string

text \<open>Indexing a slice or a string: out of range is a panic.\<close>

definition index :: "'a list \<Rightarrow> nat \<Rightarrow> panic + 'a" where
  "index xs i = (if i < length xs then Inr (xs ! i) else Inl (IndexOutOfRange i))"

type_synonym tags = "string \<rightharpoonup> string"

text \<open>
  The structured message built by \<^verbatim>\<open>NewMessage\<close> (\<^verbatim>\<open>message.go\<close>, not part of
  \<^verbatim>\<open>client.go\<close>): the parser is a parameter of the functions that call it.
\<close>

record Message =
  Command :: string
  Params :: "string list"
  Tags :: tags
  Nick :: string

record Options =
  Debug :: bool
  Port :: int
  Host :: string
  Channels :: "string list"

text \<open>
  The transport behind \<^verbatim>\<open>conn\<close>, \<^verbatim>\<open>reader\<close> and \<^verbatim>\<open>writer\<close>: the lines
  the peer will deliver (a read past the last one fails, as on EOF or a deadline),
  the data written so far, how many more writes succeed, and whether
  \<^verbatim>\<open>Close\<close> has been called.
\<close>

record Conn =
  inbound :: "string list"
  written :: "string list"
  wbudget :: nat
  conn_closed :: bool

text \<open>
  \<^verbatim>\<open>doneChan\<close>, a \<^verbatim>\<open>chan struct{}\<close> that is only ever closed, and
  \<^verbatim>\<open>sendQueue\<close>, a buffered \<^verbatim>\<open>chan string\<close>. Both are nil until
  \<^verbatim>\<open>doPostConnect\<close> makes them.
\<close>

datatype done_chan = DoneNil | DoneOpen | DoneClosed

datatype queue = QNil | QOpen "string list" | QClosed "string list"

definition sendBufferSize :: nat where
  "sendBufferSize = 512"

definition caps :: "string list" where
  "caps = [''membership'', ''commands'', ''tags'']"

text \<open>
  Listeners are opaque user functions: a listener is identified by a number and an
  invocation is recorded with the arguments it receives. Listeners are taken not to
  call back into the client.
\<close>

datatype kind =
    Action | Chat | Resub | Notice | UserState | RoomState
  | SubGift | Subscription | Cheer | JoinEv | PartEv | WhisperEv

datatype call =
    CallMsg kind nat string tags string
  | CallNotice nat string
  | CallState kind nat string tags
  | CallUser kind nat string string

record Client =
  options :: Options
  sendQueue :: queue
  conn :: "Conn option"
  readTimeout :: int
  connected :: bool
  doneChan :: done_chan
  actionCallbacks :: "nat list"
  chatCallbacks :: "nat list"
  resubCallbacks :: "nat list"
  noticeCallbacks :: "nat list"
  userStateCallbacks :: "nat list"
  roomStateCallbacks :: "nat list"
  subGiftCallbacks :: "nat list"
  subscriptionCallbacks :: "nat list"
  cheerCallbacks :: "nat list"
  joinCallbacks :: "nat list"
  partCallbacks :: "nat list"
  whisperCallbacks :: "nat list"

text \<open>\<^verbatim>\<open>NewClient\<close>: every field but the options and the read timeout is zero.\<close>

definition NewClient :: "Options \<Rightarrow> Client" where
  "NewClient o' = \<lparr> options = o', sendQueue = QNil, conn = None,
     readTimeout = 10 * 60 * 1000000000, connected = False, doneChan = DoneNil,
     actionCallbacks = [], chatCallbacks = [], resubCallbacks = [],
     noticeCallbacks = [], userStateCallbacks = [], roomStateCallbacks = [],
     subGiftCallbacks = [], subscriptionCallbacks = [], cheerCallbacks = [],
     joinCallbacks = [], partCallbacks = [], whisperCallbacks = [] \<rparr>"

subsection \<open>Connection state\<close>

text \<open>\<^verbatim>\<open>Disconnect\<close>: \<^verbatim>\<open>close\<close> panics on a nil and on a closed channel.\<close>

definition Disconnect :: "Client \<Rightarrow> panic + Client" where
  "Disconnect c =
     (if connected c then
        (case doneChan c of
           DoneNil \<Rightarrow> Inl CloseOfNilChannel
         | DoneClosed \<Rightarrow> Inl CloseOfClosedChannel
         | DoneOpen \<Rightarrow> Inr (c\<lparr>connected := False, doneChan := DoneClosed\<rparr>))
      else Inr c)"

definition Connected :: "Client \<Rightarrow> bool" where
  "Connected c = connected c"

text \<open>
  \<^verbatim>\<open>doConnect\<close>: the connection factory acts on the outside world \<open>'w\<close> and
  returns a transport or an error; it is not called when the flag is set.
\<close>

definition doConnect ::
  "('w \<Rightarrow> 'w \<times> (error + Conn)) \<Rightarrow> 'w \<Rightarrow> Client \<Rightarrow> 'w \<times> Client \<times> (error + Conn)" where
  "doConnect connFactory w c =
     (if connected c then (w, c, Inl AlreadyConnected)
      else (case connFactory w of
              (w', Inl err) \<Rightarrow> (w', c, Inl err)
            | (w', Inr cn) \<Rightarrow> (w', c\<lparr>connected := True\<rparr>, Inr cn)))"

subsection \<open>Outbound path\<close>

text \<open>
  \<^verbatim>\<open>send\<close>, called with a format and no operands (\<^verbatim>\<open>Say\<close>, the PING reply):
  the non-blocking \<^verbatim>\<open>select\<close> drops the line when the queue is nil or full, and
  a send on a closed channel panics.
\<close>

definition enqueue :: "Client \<Rightarrow> string \<Rightarrow> panic + Client" where
  "enqueue c msg =
     (case sendQueue c of
        QNil \<Rightarrow> Inr c
      | QOpen q \<Rightarrow> (if length q < sendBufferSize then Inr (c\<lparr>sendQueue := QOpen (q @ [msg])\<rparr>)
                    else Inr c)
      | QClosed q \<Rightarrow> Inl SendOnClosedChannel)"

definition send :: "Client \<Rightarrow> string \<Rightarrow> panic + Client" where
  "send c format = (if \<not> Connected c then Inr c else enqueue c (Sprintf0 format))"

text \<open>\<^verbatim>\<open>send("JOIN %s", channel)\<close> and \<^verbatim>\<open>send("PART %s", channel)\<close>: one string operand.\<close>

definition send1 :: "Client \<Rightarrow> string \<Rightarrow> string \<Rightarrow> panic + Client" where
  "send1 c verb arg = (if \<not> Connected c then Inr c else enqueue c (verb @ '' '' @ arg))"

definition Say :: "Client \<Rightarrow> string \<Rightarrow> string \<Rightarrow> panic + Client" where
  "Say c channel msg =
     (case index channel 0 of
        Inl p \<Rightarrow> Inl p
      | Inr b \<Rightarrow>
          (let channel' = (if b \<noteq> CHR ''#'' then ''#'' @ channel else channel)
           in send c (''PRIVMSG '' @ channel' @ '' :'' @ msg)))"

definition Whisper :: "Client \<Rightarrow> string \<Rightarrow> string \<Rightarrow> panic + Client" where
  "Whisper c user msg = Say c ''#jtv'' (''/w '' @ user @ '' '' @ msg)"

definition Join :: "Client \<Rightarrow> string \<Rightarrow> panic + Client" where
  "Join c channel =
     send1 c ''JOIN'' (if \<not> HasPrefix channel ''#'' then ''#'' @ channel else channel)"

definition Part :: "Client \<Rightarrow> string \<Rightarrow> panic + Client" where
  "Part c channel =
     send1 c ''PART'' (if \<not> HasPrefix channel ''#'' then ''#'' @ channel else channel)"

text \<open>
  \<^verbatim>\<open>write\<close> and \<^verbatim>\<open>read\<close> on the transport (both names are reserved
  words here, hence the suffixes). A nil \<^verbatim>\<open>conn\<close> is a nil
  dereference. Logging does not change the state and is left out.
\<close>

definition write_data :: "Client \<Rightarrow> string \<Rightarrow> panic + (Client \<times> error option)" where
  "write_data c data =
     (case conn c of
        None \<Rightarrow> Inl NilDereference
      | Some cn \<Rightarrow>
          (if wbudget cn = 0 then Inr (c, Some WriteError)
           else Inr (c\<lparr>conn := Some (cn\<lparr>written := written cn @ [data],
                                         wbudget := wbudget cn - 1\<rparr>)\<rparr>, None)))"

definition read_line :: "Client \<Rightarrow> panic + (Client \<times> string \<times> error option)" where
  "read_line c =
     (case conn c of
        None \<Rightarrow> Inl NilDereference
      | Some cn \<Rightarrow>
          (case inbound cn of
             [] \<Rightarrow> Inr (c, [], Some ReadError)
           | line # rest \<Rightarrow> Inr (c\<lparr>conn := Some (cn\<lparr>inbound := rest\<rparr>)\<rparr>, line, None)))"

subsection \<open>Dispatch\<close>

text \<open>
  The \<^verbatim>\<open>range\<close> loops over a snapshot of a listener list. The arguments of a
  call are evaluated at each iteration, so an index out of range panics only when
  there is a listener to call. The result is the panic or the calls made, in order.
\<close>

fun forEach :: "nat list \<Rightarrow> (nat \<Rightarrow> panic + call) \<Rightarrow> panic + call list" where
  "forEach [] body = Inr []"
| "forEach (cb # cbs) body =
     (case body cb of
        Inl p \<Rightarrow> Inl p
      | Inr x \<Rightarrow> (case forEach cbs body of Inl p \<Rightarrow> Inl p | Inr xs \<Rightarrow> Inr (x # xs)))"

definition doUserStateCallbacks :: "Client \<Rightarrow> Message \<Rightarrow> panic + call list" where
  "doUserStateCallbacks c msg =
     forEach (userStateCallbacks c) (\<lambda>cb.
       case index (Params msg) 0 of Inl p \<Rightarrow> Inl p
       | Inr ch \<Rightarrow> Inr (CallState UserState cb ch (Tags msg)))"

definition doRoomStateCallbacks :: "Client \<Rightarrow> Message \<Rightarrow> panic + call list" where
  "doRoomStateCallbacks c msg =
     forEach (roomStateCallbacks c) (\<lambda>cb.
       case index (Params msg) 0 of Inl p \<Rightarrow> Inl p
       | Inr ch \<Rightarrow> Inr (CallState RoomState cb ch (Tags msg)))"

definition doNoticeCallbacks :: "Client \<Rightarrow> Message \<Rightarrow> panic + call list" where
  "doNoticeCallbacks c msg =
     forEach (noticeCallbacks c) (\<lambda>cb.
       let m = (if length (Params msg) > 1 then Params msg ! 1 else [])
       in Inr (CallNotice cb m))"

text \<open>The body shared by the resub, subscription and subgift loops.\<close>

definition guardedBody :: "kind \<Rightarrow> Message \<Rightarrow> nat \<Rightarrow> panic + call" where
  "guardedBody k msg cb =
     (let m = (if length (Params msg) > 1 then Params msg ! 1 else [])
      in case index (Params msg) 0 of Inl p \<Rightarrow> Inl p
         | Inr ch \<Rightarrow> Inr (CallMsg k cb ch (Tags msg) m))"

definition doResubCallbacks :: "Client \<Rightarrow> Message \<Rightarrow> panic + call list" where
  "doResubCallbacks c msg = forEach (resubCallbacks c) (guardedBody Resub msg)"

definition doSubscriptionCallbacks :: "Client \<Rightarrow> Message \<Rightarrow> panic + call list" where
  "doSubscriptionCallbacks c msg =
     forEach (subscriptionCallbacks c) (guardedBody Subscription msg)"

definition doSubGiftCallbacks :: "Client \<Rightarrow> Message \<Rightarrow> panic + call list" where
  "doSubGiftCallbacks c msg = forEach (subGiftCallbacks c) (guardedBody SubGift msg)"

text \<open>
  The body shared by the cheer and chat loops: both indexes are unguarded, and
  \<^verbatim>\<open>Params[0]\<close> is read before \<^verbatim>\<open>Params[1]\<close>.
\<close>

definition unguardedBody :: "kind \<Rightarrow> Message \<Rightarrow> nat \<Rightarrow> panic + call" where
  "unguardedBody k msg cb =
     (case index (Params msg) 0 of Inl p \<Rightarrow> Inl p
      | Inr ch \<Rightarrow>
          (case index (Params msg) 1 of Inl p \<Rightarrow> Inl p
           | Inr m \<Rightarrow> Inr (CallMsg k cb ch (Tags msg) m)))"

definition doCheerCallbacks :: "Client \<Rightarrow> Message \<Rightarrow> panic + call list" where
  "doCheerCallbacks c msg = forEach (cheerCallbacks c) (unguardedBody Cheer msg)"

definition doChatCallbacks :: "Client \<Rightarrow> Message \<Rightarrow> panic + call list" where
  "doChatCallbacks c msg = forEach (chatCallbacks c) (unguardedBody Chat msg)"

text \<open>
  \<^verbatim>\<open>doActionCallbacks\<close> reads \<^verbatim>\<open>Params[1]\<close> before the loop; the slice
  \<^verbatim>\<open>m[7:]\<close> panics when \<open>m\<close> is shorter than 7 bytes.
\<close>

definition doActionCallbacks :: "Client \<Rightarrow> Message \<Rightarrow> panic + call list" where
  "doActionCallbacks c msg =
     (case index (Params msg) 1 of Inl p \<Rightarrow> Inl p
      | Inr m \<Rightarrow>
          forEach (actionCallbacks c) (\<lambda>cb.
            case index (Params msg) 0 of Inl p \<Rightarrow> Inl p
            | Inr ch \<Rightarrow>
                (if 7 \<le> length m then Inr (CallMsg Action cb ch (Tags msg) (drop 7 m))
                 else Inl SliceBoundsOutOfRange)))"

definition doJoinCallbacks :: "Client \<Rightarrow> Message \<Rightarrow> panic + call list" where
  "doJoinCallbacks c msg =
     forEach (joinCallbacks c) (\<lambda>cb.
       case index (Params msg) 0 of Inl p \<Rightarrow> Inl p
       | Inr ch \<Rightarrow> Inr (CallUser JoinEv cb ch (Nick msg)))"

definition doPartCallbacks :: "Client \<Rightarrow> Message \<Rightarrow> panic + call list" where
  "doPartCallbacks c msg =
     forEach (partCallbacks c) (\<lambda>cb.
       case index (Params msg) 0 of Inl p \<Rightarrow> Inl p
       | Inr ch \<Rightarrow> Inr (CallUser PartEv cb ch (Nick msg)))"

definition doWhisperCallbacks :: "Client \<Rightarrow> Message \<Rightarrow> panic + call list" where
  "doWhisperCallbacks c msg =
     forEach (whisperCallbacks c) (\<lambda>cb.
       case index (Params msg) 1 of Inl p \<Rightarrow> Inl p
       | Inr m \<Rightarrow> Inr (CallMsg WhisperEv cb (Nick msg) (Tags msg) m))"

text \<open>The listener loops leave the client as it is.\<close>

definition keep :: "Client \<Rightarrow> panic + call list \<Rightarrow> panic + (Client \<times> call list)" where
  "keep c r = (case r of Inl p \<Rightarrow> Inl p | Inr calls \<Rightarrow> Inr (c, calls))"

text \<open>
  The \<^verbatim>\<open>switch\<close> of \<^verbatim>\<open>doCallbacks\<close> on the parsed message. A tag missing from the
  map reads as the empty string. The PING reply passes the formatted line to
  \<^verbatim>\<open>send\<close> as its format.
\<close>

definition actionMarker :: string where
  "actionMarker = CHR 0x01 # ''ACTION''"

definition dispatch :: "Client \<Rightarrow> Message \<Rightarrow> panic + (Client \<times> call list)" where
  "dispatch c msg =
     (if Command msg = ''PRIVMSG'' then
        (let m = (if length (Params msg) > 1 then Params msg ! 1 else [])
         in if HasPrefix m actionMarker then keep c (doActionCallbacks c msg)
            else if Tags msg ''bits'' \<noteq> None then keep c (doCheerCallbacks c msg)
            else keep c (doChatCallbacks c msg))
      else if Command msg = ''JOIN'' then keep c (doJoinCallbacks c msg)
      else if Command msg = ''PART'' then keep c (doPartCallbacks c msg)
      else if Command msg = ''NOTICE'' then keep c (doNoticeCallbacks c msg)
      else if Command msg = ''USERSTATE'' then keep c (doUserStateCallbacks c msg)
      else if Command msg = ''ROOMSTATE'' then keep c (doRoomStateCallbacks c msg)
      else if Command msg = ''USERNOTICE'' then
        (let msgid = (case Tags msg ''msg-id'' of None \<Rightarrow> [] | Some v \<Rightarrow> v)
         in if msgid = ''resub'' then keep c (doResubCallbacks c msg)
            else if msgid = ''sub'' then keep c (doSubscriptionCallbacks c msg)
            else if msgid = ''subgift'' then keep c (doSubGiftCallbacks c msg)
            else Inr (c, []))
      else if Command msg = ''WHISPER'' then keep c (doWhisperCallbacks c msg)
      else if Command msg = ''PING'' then
        (case index (Params msg) 0 of Inl p \<Rightarrow> Inl p
         | Inr p0 \<Rightarrow>
             (case send c (''PONG :'' @ p0) of Inl p \<Rightarrow> Inl p
              | Inr c' \<Rightarrow> Inr (c', [])))
      else Inr (c, []))"

definition doCallbacks ::
  "(string \<Rightarrow> Message) \<Rightarrow> Client \<Rightarrow> string \<Rightarrow> panic + (Client \<times> call list)" where
  "doCallbacks NewMessage c line = dispatch c (NewMessage line)"

subsection \<open>Handshake and Connect\<close>

text \<open>
  \<^verbatim>\<open>authenticate\<close>: the result carries the calls made by the dispatcher and
  the error returned, if any.
\<close>

definition authenticate ::
  "(string \<Rightarrow> Message) \<Rightarrow> Client \<Rightarrow> string \<Rightarrow> string
     \<Rightarrow> panic + (Client \<times> call list \<times> error option)" where
  "authenticate NewMessage c nick pass =
     (case write_data c (''PASS '' @ pass @ [CHR 0x0D, CHR 0x0A] @ ''NICK '' @ nick
                           @ [CHR 0x0D, CHR 0x0A]) of
        Inl p \<Rightarrow> Inl p
      | Inr (c1, Some err) \<Rightarrow> Inr (c1, [], Some err)
      | Inr (c1, None) \<Rightarrow>
          (case read_line c1 of
             Inl p \<Rightarrow> Inl p
           | Inr (c2, line, Some err) \<Rightarrow> Inr (c2, [], Some err)
           | Inr (c2, line, None) \<Rightarrow>
               (if Command (NewMessage line) \<noteq> ''001'' then
                  (case doCallbacks NewMessage c2 line of
                     Inl p \<Rightarrow> Inl p
                   | Inr (c3, calls) \<Rightarrow> Inr (c3, calls, Some (UnexpectedResponse line)))
                else
                  (case write_data c2 (''CAP REQ :'' @ Join_strings caps '' twitch.tv/''
                                         @ [CHR 0x0D, CHR 0x0A]) of
                     Inl p \<Rightarrow> Inl p
                   | Inr (c3, r) \<Rightarrow> Inr (c3, [], r)))))"

text \<open>The loop of \<^verbatim>\<open>doPostConnect\<close> that joins the configured channels.\<close>

fun joinAll :: "Client \<Rightarrow> string list \<Rightarrow> panic + Client" where
  "joinAll c [] = Inr c"
| "joinAll c (channel # rest) =
     (case Join c channel of Inl p \<Rightarrow> Inl p | Inr c' \<Rightarrow> joinAll c' rest)"

text \<open>The deferred \<^verbatim>\<open>close(c.sendQueue)\<close>.\<close>

definition closeQueue :: "Client \<Rightarrow> panic + Client" where
  "closeQueue c =
     (case sendQueue c of
        QNil \<Rightarrow> Inl CloseOfNilChannel
      | QClosed q \<Rightarrow> Inl CloseOfClosedChannel
      | QOpen q \<Rightarrow> Inr (c\<lparr>sendQueue := QClosed q\<rparr>))"

text \<open>
  \<^verbatim>\<open>Connect\<close> blocks in the receive loop for the whole session. The model follows
  it up to the point where the two loops start: the outcome is either the error
  returned before that point, or \<open>Started\<close> with the parameters handed to the
  send loop.
\<close>

datatype outcome = Failed error | Started rat rat

definition doPostConnect ::
  "(string \<Rightarrow> Message) \<Rightarrow> Client \<Rightarrow> string \<Rightarrow> string \<Rightarrow> Conn \<Rightarrow> rat \<Rightarrow> rat
     \<Rightarrow> panic + (Client \<times> call list \<times> outcome)" where
  "doPostConnect NewMessage c nick pass cn maxMessages perSeconds =
     (let c0 = c\<lparr>conn := Some cn, doneChan := DoneOpen, sendQueue := QOpen []\<rparr>
      in case authenticate NewMessage c0 nick pass of
           Inl p \<Rightarrow> Inl p
         | Inr (c1, calls, Some err) \<Rightarrow>
             (case closeQueue c1 of Inl p \<Rightarrow> Inl p
              | Inr c2 \<Rightarrow> Inr (c2, calls, Failed err))
         | Inr (c1, calls, None) \<Rightarrow>
             (case joinAll c1 (Channels (options c1)) of Inl p \<Rightarrow> Inl p
              | Inr c2 \<Rightarrow> Inr (c2, calls, Started maxMessages perSeconds)))"

definition Connect ::
  "(string \<Rightarrow> Message) \<Rightarrow> ('w \<Rightarrow> 'w \<times> (error + Conn)) \<Rightarrow> 'w \<Rightarrow> Client \<Rightarrow> string \<Rightarrow> string
     \<Rightarrow> panic + ('w \<times> Client \<times> call list \<times> outcome)" where
  "Connect NewMessage dial w c nick pass =
     (case doConnect dial w c of
        (w', c', Inl err) \<Rightarrow> Inr (w', c', [], Failed err)
      | (w', c', Inr cn) \<Rightarrow>
          (case doPostConnect NewMessage c' nick pass cn 19 30 of
             Inl p \<Rightarrow> Inl p
           | Inr (c'', calls, r) \<Rightarrow> Inr (w', c'', calls, r)))"

subsection \<open>The send loop\<close>

text \<open>
  The token bucket of \<^verbatim>\<open>startSendLoop\<close>. Times are nanoseconds, as
  \<^verbatim>\<open>time.Duration\<close> is; tokens are rationals, so the rounding of \<^verbatim>\<open>float64\<close>
  is not modelled. \<open>refill\<close> is the arithmetic between dequeuing a line and
  writing it: the new token count and the nanoseconds slept (0 when
  \<^verbatim>\<open>time.Sleep\<close> is not called). The conversion to \<^verbatim>\<open>time.Duration\<close>
  truncates; the value converted is positive. \<open>perSeconds\<close> is taken to be
  non-zero (\<^verbatim>\<open>Connect\<close> passes 30).
\<close>

record Bucket =
  tokens :: rat
  lastTick :: int

definition refill :: "rat \<Rightarrow> rat \<Rightarrow> Bucket \<Rightarrow> int \<Rightarrow> rat \<times> int" where
  "refill maxMessages perSeconds b now =
     (let elapsedTime = now - lastTick b;
          t = tokens b + (of_int elapsedTime / 1000000000) * (maxMessages / perSeconds)
      in if t \<ge> maxMessages then (maxMessages, 0)
         else if t < 1 then (t, \<lfloor>(1 - t) * 1000000000\<rfloor>)
         else (t, 0))"

text \<open>
  A receive from the queue: a nil or an empty open channel blocks (\<open>None\<close>), a
  closed and drained channel yields the empty string.
\<close>

fun dequeue :: "queue \<Rightarrow> (string \<times> queue) option" where
  "dequeue QNil = None"
| "dequeue (QOpen []) = None"
| "dequeue (QOpen (x # xs)) = Some (x, QOpen xs)"
| "dequeue (QClosed []) = Some ([], QClosed [])"
| "dequeue (QClosed (x # xs)) = Some (x, QClosed xs)"

text \<open>
  Which case of the \<^verbatim>\<open>select\<close> fires at an iteration is the scheduler's choice:
  \<open>Shutdown\<close> (enabled once \<^verbatim>\<open>doneChan\<close> is closed) or \<open>Deliver now\<close>
  (enabled when a line can be received), with the reading of the clock taken at
  that iteration. The loop runs over the list of choices; it stops, still blocked,
  at a choice that is not enabled or at the end of the list. The result is the
  client, for each send the token count after the refill and the sleep computed
  from it, and whether the loop has returned.
\<close>

datatype wake = Shutdown | Deliver int

fun sendLoop ::
  "rat \<Rightarrow> rat \<Rightarrow> Bucket \<Rightarrow> Client \<Rightarrow> wake list
     \<Rightarrow> panic + (Client \<times> (rat \<times> int) list \<times> bool)" where
  "sendLoop maxMessages perSeconds b c [] = Inr (c, [], False)"
| "sendLoop maxMessages perSeconds b c (Shutdown # ws) =
     Inr (c, [], doneChan c = DoneClosed)"
| "sendLoop maxMessages perSeconds b c (Deliver now # ws) =
     (case dequeue (sendQueue c) of
        None \<Rightarrow> Inr (c, [], False)
      | Some (data0, q') \<Rightarrow>
          (let data = (if \<not> HasSuffix data0 [CHR 0x0D, CHR 0x0A]
                       then data0 @ [CHR 0x0D, CHR 0x0A] else data0);
               (t, sleep) = refill maxMessages perSeconds b now
           in case write_data (c\<lparr>sendQueue := q'\<rparr>) data of
                Inl p \<Rightarrow> Inl p
              | Inr (c1, Some err) \<Rightarrow>
                  (case Disconnect c1 of Inl p \<Rightarrow> Inl p
                   | Inr c2 \<Rightarrow> Inr (c2, [(t, sleep)], True))
              | Inr (c1, None) \<Rightarrow>
                  (case sendLoop maxMessages perSeconds
                          \<lparr>tokens = t - 1, lastTick = now\<rparr> c1 ws of
                     Inl p \<Rightarrow> Inl p
                   | Inr (c2, sends, returned) \<Rightarrow> Inr (c2, (t, sleep) # sends, returned))))"

text \<open>
  \<^verbatim>\<open>startSendLoop\<close>: a full bucket, the clock read once at \<open>start\<close>, and the
  deferred \<^verbatim>\<open>conn.Close()\<close> when the loop returns.
\<close>

definition startSendLoop ::
  "rat \<Rightarrow> rat \<Rightarrow> Client \<Rightarrow> int \<Rightarrow> wake list
     \<Rightarrow> panic + (Client \<times> (rat \<times> int) list \<times> bool)" where
  "startSendLoop maxMessages perSeconds c start ws =
     (case conn c of
        None \<Rightarrow> Inl NilDereference
      | Some cn0 \<Rightarrow>
          (case sendLoop maxMessages perSeconds \<lparr>tokens = maxMessages, lastTick = start\<rparr> c ws of
             Inl p \<Rightarrow> Inl p
           | Inr (c', sends, returned) \<Rightarrow>
               Inr (if returned
                    then c'\<lparr>conn := map_option (\<lambda>cn. cn\<lparr>conn_closed := True\<rparr>) (conn c')\<rparr>
                    else c', sends, returned)))"

subsection \<open>Example inputs\<close>

text \<open>
  Concrete inputs at which the theorems below are instantiated. The parser is a
  parameter of the model; \<open>constParser m\<close> is the instance that reads every line
  as the message \<open>m\<close>.
\<close>

definition constParser :: "Message \<Rightarrow> string \<Rightarrow> Message" where
  "constParser m line = m"

definition welcomeMsg :: Message where
  "welcomeMsg = \<lparr>Command = ''001'', Params = [''nick'', ''Welcome, GLHF!''],
     Tags = Map.empty, Nick = []\<rparr>"

definition welcomeLine :: string where
  "welcomeLine = '':tmi.twitch.tv 001 nick :Welcome, GLHF!'' @ [CHR 0x0D, CHR 0x0A]"

definition exOptions :: Options where
  "exOptions = \<lparr>Debug = False, Port = 6667, Host = ''irc.chat.twitch.tv'', Channels = [''foo'']\<rparr>"

definition exConn :: "string list \<Rightarrow> nat \<Rightarrow> Conn" where
  "exConn lines n = \<lparr>inbound = lines, written = [],
     wbudget = n, conn_closed = False\<rparr>"

definition countingDial :: "Conn \<Rightarrow> nat \<Rightarrow> nat \<times> (error + Conn)" where
  "countingDial cn w = (Suc w, Inr cn)"

definition startedClient :: Client where
  "startedClient = (NewClient exOptions)\<lparr>connected := True, doneChan := DoneOpen,
     sendQueue := QOpen [''JOIN #foo''],
     conn := Some \<lparr>inbound = [], written = [''PASS oauth:x'' @ [CHR 0x0D, CHR 0x0A] @ ''NICK nick'' @ [CHR 0x0D, CHR 0x0A],
        ''CAP REQ :membership twitch.tv/commands twitch.tv/tags'' @ [CHR 0x0D, CHR 0x0A]], wbudget = 3, conn_closed = False\<rparr>\<rparr>"

definition failedClient :: Client where
  "failedClient = (NewClient exOptions)\<lparr>connected := True, doneChan := DoneOpen,
     sendQueue := QClosed [], conn := Some (exConn [welcomeLine] 0)\<rparr>"

definition actionLine :: string where
  "actionLine = ''PRIVMSG #foo :'' @ [CHR 0x01] @ ''ACTION waves'' @ [CHR 0x01]"

definition actionMsg :: Message where
  "actionMsg = \<lparr>Command = ''PRIVMSG'',
     Params = [''#foo'', [CHR 0x01] @ ''ACTION waves'' @ [CHR 0x01]],
     Tags = Map.empty, Nick = []\<rparr>"

definition listenClient :: Client where
  "listenClient = startedClient\<lparr>actionCallbacks := [1], chatCallbacks := [2],
     resubCallbacks := [3], noticeCallbacks := [4], subGiftCallbacks := [5],
     subscriptionCallbacks := [6], cheerCallbacks := [7], whisperCallbacks := [8]\<rparr>"

definition bareMsg :: "string \<Rightarrow> string list \<Rightarrow> Message" where
  "bareMsg cmd ps = \<lparr>Command = cmd, Params = ps, Tags = Map.empty, Nick = []\<rparr>"

definition userNotice :: "string \<Rightarrow> string list \<Rightarrow> Message" where
  "userNotice msgid ps = \<lparr>Command = ''USERNOTICE'', Params = ps,
     Tags = [''msg-id'' \<mapsto> msgid], Nick = []\<rparr>"

definition burstClient :: Client where
  "burstClient = startedClient\<lparr>sendQueue := QOpen (replicate 20 ''PRIVMSG #foo :hi''),
     conn := Some (exConn [] 25)\<rparr>"

definition noticeLine :: string where
  "noticeLine = '':tmi.twitch.tv NOTICE * :Login authentication failed''
     @ [CHR 0x0D, CHR 0x0A]"

definition noticeMsg :: Message where
  "noticeMsg = bareMsg ''NOTICE'' [''*'', ''Login authentication failed'']"

definition chatClient :: Client where
  "chatClient = (NewClient exOptions)\<lparr>chatCallbacks := [2]\<rparr>"

section \<open>Properties\<close>

subsection \<open>What each operation leaves unchanged\<close>

lemma enqueue_frame: "enqueue c m = Inr c' \<Longrightarrow> \<exists>q. c' = c\<lparr>sendQueue := q\<rparr>"
proof (cases "sendQueue c")
  case QNil
  assume "enqueue c m = Inr c'"
  with QNil have "c' = c\<lparr>sendQueue := sendQueue c\<rparr>" by (simp add: enqueue_def)
  then show ?thesis ..
next
  case (QOpen q)
  assume "enqueue c m = Inr c'"
  with QOpen have "c' = c\<lparr>sendQueue := QOpen (q @ [m])\<rparr> \<or> c' = c\<lparr>sendQueue := sendQueue c\<rparr>"
    by (auto simp: enqueue_def split: if_splits)
  then show ?thesis by blast
next
  case (QClosed q)
  assume "enqueue c m = Inr c'"
  with QClosed show ?thesis by (simp add: enqueue_def)
qed

lemma send_frame: "send c f = Inr c' \<Longrightarrow> \<exists>q. c' = c\<lparr>sendQueue := q\<rparr>"
proof -
  assume a: "send c f = Inr c'"
  show ?thesis
  proof (cases "Connected c")
    case True
    with a show ?thesis by (auto simp: send_def dest: enqueue_frame)
  next
    case False
    with a have "c' = c\<lparr>sendQueue := sendQueue c\<rparr>" by (simp add: send_def)
    then show ?thesis ..
  qed
qed

lemma send1_frame: "send1 c v a = Inr c' \<Longrightarrow> \<exists>q. c' = c\<lparr>sendQueue := q\<rparr>"
proof -
  assume a: "send1 c v a = Inr c'"
  show ?thesis
  proof (cases "Connected c")
    case True
    with a show ?thesis by (auto simp: send1_def dest: enqueue_frame)
  next
    case False
    with a have "c' = c\<lparr>sendQueue := sendQueue c\<rparr>" by (simp add: send1_def)
    then show ?thesis ..
  qed
qed

lemma keep_Inr: "keep c r = Inr (c', calls) \<Longrightarrow> c' = c \<and> r = Inr calls"
  by (auto simp: keep_def split: sum.splits)

lemma dispatch_frame: "dispatch c msg = Inr (c', calls) \<Longrightarrow> \<exists>q. c' = c\<lparr>sendQueue := q\<rparr>"
proof -
  assume a: "dispatch c msg = Inr (c', calls)"
  have "c' = c \<or> (\<exists>f. send c f = Inr c')"
    using a unfolding dispatch_def Let_def
    by (auto split: if_splits sum.splits dest!: keep_Inr)
  then show ?thesis
  proof
    assume "c' = c"
    then have "c' = c\<lparr>sendQueue := sendQueue c\<rparr>" by simp
    then show ?thesis ..
  next
    assume "\<exists>f. send c f = Inr c'"
    then show ?thesis by (auto dest: send_frame)
  qed
qed

lemma write_frame: "write_data c d = Inr (c', r) \<Longrightarrow> \<exists>cn. c' = c\<lparr>conn := cn\<rparr>"
proof -
  assume a: "write_data c d = Inr (c', r)"
  then obtain cn where cn: "conn c = Some cn"
    by (auto simp: write_data_def split: option.splits)
  show ?thesis
  proof (cases "wbudget cn = 0")
    case True
    with a cn have "c' = c\<lparr>conn := conn c\<rparr>" by (simp add: write_data_def)
    then show ?thesis ..
  next
    case False
    with a cn show ?thesis by (auto simp: write_data_def)
  qed
qed

lemma read_frame: "read_line c = Inr (c', l, r) \<Longrightarrow> \<exists>cn. c' = c\<lparr>conn := cn\<rparr>"
proof -
  assume a: "read_line c = Inr (c', l, r)"
  then obtain cn where cn: "conn c = Some cn"
    by (auto simp: read_line_def split: option.splits)
  show ?thesis
  proof (cases "inbound cn")
    case Nil
    with a cn have "c' = c\<lparr>conn := conn c\<rparr>" by (simp add: read_line_def)
    then show ?thesis ..
  next
    case (Cons x xs)
    with a cn show ?thesis by (auto simp: read_line_def)
  qed
qed

lemma joinAll_frame: "joinAll c chs = Inr c' \<Longrightarrow> \<exists>q. c' = c\<lparr>sendQueue := q\<rparr>"
proof (induction chs arbitrary: c)
  case Nil
  then have "c' = c\<lparr>sendQueue := sendQueue c\<rparr>" by simp
  then show ?case ..
next
  case (Cons ch chs)
  then obtain c1 where j: "Join c ch = Inr c1" and r: "joinAll c1 chs = Inr c'"
    by (auto split: sum.splits)
  from j obtain q1 where "c1 = c\<lparr>sendQueue := q1\<rparr>"
    unfolding Join_def by (auto dest: send1_frame)
  moreover from Cons.IH[OF r] obtain q2 where "c' = c1\<lparr>sendQueue := q2\<rparr>" by blast
  ultimately have "c' = c\<lparr>sendQueue := q2\<rparr>" by simp
  then show ?case ..
qed

lemma authenticate_frame:
  assumes "authenticate P c n p = Inr (c', calls, r)"
  shows "connected c' = connected c \<and> doneChan c' = doneChan c \<and> options c' = options c"
  using assms unfolding authenticate_def doCallbacks_def
  by (auto split: sum.splits option.splits if_splits
           dest!: write_frame read_frame dispatch_frame)

lemma closeQueue_frame: "closeQueue c = Inr c' \<Longrightarrow> \<exists>q. c' = c\<lparr>sendQueue := q\<rparr>"
  by (auto simp: closeQueue_def split: queue.splits)

lemma doPostConnect_frame:
  assumes "doPostConnect P c n p cn a b = Inr (c', calls, r)"
  shows "connected c' = connected c \<and> doneChan c' = DoneOpen"
  using assms unfolding doPostConnect_def Let_def
  by (auto split: sum.splits option.splits
           dest!: authenticate_frame closeQueue_frame joinAll_frame)


subsection \<open>Disconnect\<close>

text \<open>
  Claim C5. \<^verbatim>\<open>Disconnect\<close> is idempotent: a call that finds the flag set (and the
  shutdown channel open) clears the flag and closes the channel; a call that finds
  the flag clear changes nothing; after any call that returns, a further call
  returns the same state and closes nothing; and two calls in a row have the effect
  of one.
\<close>

theorem Disconnect_idempotent:
  "(connected c \<and> doneChan c = DoneOpen \<longrightarrow>
      Disconnect c = Inr (c\<lparr>connected := False, doneChan := DoneClosed\<rparr>))
   \<and> (\<not> connected c \<longrightarrow> Disconnect c = Inr c)
   \<and> (\<forall>c'. Disconnect c = Inr c' \<longrightarrow> Disconnect c' = Inr c')
   \<and> (case Disconnect c of Inl p \<Rightarrow> Inl p | Inr c' \<Rightarrow> Disconnect c') = Disconnect c"
  by (auto simp: Disconnect_def split: done_chan.splits)

theorem Disconnect_idempotent_witness:
  "connected startedClient \<and> doneChan startedClient = DoneOpen
   \<and> Disconnect startedClient = Inr (startedClient\<lparr>connected := False, doneChan := DoneClosed\<rparr>)
   \<and> Disconnect (startedClient\<lparr>connected := False, doneChan := DoneClosed\<rparr>)
       = Inr (startedClient\<lparr>connected := False, doneChan := DoneClosed\<rparr>)
   \<and> \<not> connected (NewClient exOptions)
   \<and> Disconnect (NewClient exOptions) = Inr (NewClient exOptions)"
  using Disconnect_idempotent [of startedClient] Disconnect_idempotent [of "NewClient exOptions"]
  by (simp add: startedClient_def NewClient_def)

subsection \<open>Connect and the connected flag\<close>

lemma Connect_already:
  "connected c \<Longrightarrow> Connect P dial w c nick pass = Inr (w, c, [], Failed AlreadyConnected)"
  by (simp add: Connect_def doConnect_def)

lemma Connect_Started_connected:
  assumes "Connect P dial w c nick pass = Inr (w', c', calls, Started a b)"
  shows "connected c'"
proof -
  from assms obtain c0 cn where d: "doConnect dial w c = (w', c0, Inr cn)"
    and p: "doPostConnect P c0 nick pass cn 19 30 = Inr (c', calls, Started a b)"
    by (auto simp: Connect_def split: prod.splits sum.splits)
  from d have "connected c0"
    by (auto simp: doConnect_def split: if_splits prod.splits sum.splits)
  with doPostConnect_frame[OF p] show ?thesis by simp
qed

lemma Disconnect_clears: "Disconnect c = Inr c' \<Longrightarrow> \<not> connected c'"
  by (auto simp: Disconnect_def split: if_splits done_chan.splits)

text \<open>
  Claim C6. \<^verbatim>\<open>Connected()\<close> is false on a fresh client, true once \<^verbatim>\<open>Connect\<close>
  has completed the handshake and started the loops, and false after
  \<^verbatim>\<open>Disconnect\<close>; a \<^verbatim>\<open>Connect\<close> on a client whose flag is set returns
  \<open>AlreadyConnected\<close> with the outside world untouched (the factory is not called)
  and the client unchanged.
\<close>

theorem Connected_lifecycle:
  "\<not> Connected (NewClient opts)
   \<and> (\<forall>w' c' calls a b. Connect P dial w c nick pass = Inr (w', c', calls, Started a b)
         \<longrightarrow> Connected c')
   \<and> (\<forall>c'. Disconnect c = Inr c' \<longrightarrow> \<not> Connected c')
   \<and> (Connected c \<longrightarrow> Connect P dial w c nick pass = Inr (w, c, [], Failed AlreadyConnected))"
  using Connect_Started_connected[of P dial w c nick pass] Disconnect_clears[of c]
        Connect_already[of c P dial w nick pass]
  by (auto simp: Connected_def NewClient_def)

lemma ex_Connect:
  "Connect (constParser welcomeMsg) (countingDial (exConn [welcomeLine] 5)) 0 (NewClient exOptions) ''nick'' ''oauth:x''
     = Inr (1, startedClient, [], Started 19 30)"
  by (simp add: Connect_def doConnect_def countingDial_def NewClient_def exOptions_def exConn_def
        doPostConnect_def authenticate_def write_data_def read_line_def constParser_def welcomeMsg_def
        caps_def Join_def send1_def Connected_def enqueue_def sendBufferSize_def HasPrefix_def
        startedClient_def)

theorem Connected_lifecycle_witness:
  "Connect (constParser welcomeMsg) (countingDial (exConn [welcomeLine] 5)) 0 (NewClient exOptions)
      ''nick'' ''oauth:x'' = Inr (1, startedClient, [], Started 19 30)
   \<and> Connected startedClient
   \<and> (\<exists>c'. Disconnect startedClient = Inr c' \<and> \<not> Connected c')
   \<and> Connect (constParser welcomeMsg) (countingDial (exConn [welcomeLine] 5)) 1 startedClient
      ''nick'' ''oauth:x'' = Inr (1, startedClient, [], Failed AlreadyConnected)"
proof -
  have a: "Connect (constParser welcomeMsg) (countingDial (exConn [welcomeLine] 5)) 0 (NewClient exOptions)
      ''nick'' ''oauth:x'' = Inr (1, startedClient, [], Started 19 30)"
    by (rule ex_Connect)
  have b: "Connected startedClient"
    using Connected_lifecycle [of exOptions "constParser welcomeMsg" "countingDial (exConn [welcomeLine] 5)" 0
        "NewClient exOptions" "''nick''" "''oauth:x''"] a
    by blast
  have d: "Disconnect startedClient
      = Inr (startedClient\<lparr>connected := False, doneChan := DoneClosed\<rparr>)"
    by (simp add: Disconnect_def startedClient_def)
  have e: "\<not> Connected (startedClient\<lparr>connected := False, doneChan := DoneClosed\<rparr>)"
    using Connected_lifecycle [of exOptions "constParser welcomeMsg" "countingDial (exConn [welcomeLine] 5)" 0
        startedClient "''nick''" "''oauth:x''"] d
    by blast
  have f: "Connect (constParser welcomeMsg) (countingDial (exConn [welcomeLine] 5)) 1 startedClient
      ''nick'' ''oauth:x'' = Inr (1, startedClient, [], Failed AlreadyConnected)"
    using Connected_lifecycle [of exOptions "constParser welcomeMsg" "countingDial (exConn [welcomeLine] 5)" 1
        startedClient "''nick''" "''oauth:x''"] b
    by blast
  from a b d e f show ?thesis by blast
qed

lemma ex_Connect_failed:
  "Connect (constParser welcomeMsg) (countingDial (exConn [welcomeLine] 0)) 0 (NewClient exOptions) ''nick'' ''oauth:x''
     = Inr (1, failedClient, [], Failed WriteError)"
  by (simp add: Connect_def doConnect_def countingDial_def NewClient_def exOptions_def exConn_def
        doPostConnect_def authenticate_def write_data_def closeQueue_def failedClient_def)

subsection \<open>The capability request\<close>

text \<open>
  Claim C4. The claim is that each of the three capabilities in the \<^verbatim>\<open>CAP REQ\<close>
  line carries the \<^verbatim>\<open>twitch.tv/\<close> prefix. The prefix is the separator of
  \<^verbatim>\<open>strings.Join\<close>, so the first capability has none: after a welcome line the
  handshake writes \<^verbatim>\<open>CAP REQ :membership twitch.tv/commands twitch.tv/tags\<close>.
\<close>

theorem cap_request_line:
  "authenticate (constParser welcomeMsg) ((NewClient exOptions)\<lparr>conn := Some (exConn [welcomeLine] 5)\<rparr>)
      ''nick'' ''oauth:x''
   = Inr ((NewClient exOptions)\<lparr>conn := Some \<lparr>inbound = [],
        written = [''PASS oauth:x'' @ [CHR 0x0D, CHR 0x0A] @ ''NICK nick'' @ [CHR 0x0D, CHR 0x0A],
                   ''CAP REQ :membership twitch.tv/commands twitch.tv/tags'' @ [CHR 0x0D, CHR 0x0A]],
        wbudget = 3, conn_closed = False\<rparr>\<rparr>, [], None)"
  by (simp add: authenticate_def write_data_def read_line_def constParser_def welcomeMsg_def
        caps_def NewClient_def exConn_def)

subsection \<open>Dispatch\<close>

lemma forEach_total: "forEach cbs (\<lambda>cb. Inr (f cb)) = Inr (map f cbs)"
  by (induction cbs) simp_all

lemma forEach_panic: "cbs \<noteq> [] \<Longrightarrow> forEach cbs (\<lambda>cb. Inl p) = Inl p"
  by (cases cbs) simp_all

lemma Sprintf0_plain: "CHR ''%'' \<notin> set s \<Longrightarrow> Sprintf0 s = s"
  by (induction s rule: Sprintf0.induct) auto

text \<open>
  Claim C2. The claim is that for the line \<^verbatim>\<open>PRIVMSG #foo :\u0001ACTION waves\u0001\<close>
  only the action listeners are called, with channel \<^verbatim>\<open>#foo\<close> and the text
  \<^verbatim>\<open>waves\<close>. \<^verbatim>\<open>doActionCallbacks\<close> passes \<^verbatim>\<open>m[7:]\<close>: it removes the 7 bytes of
  the marker and keeps the space that follows it and the closing \<^verbatim>\<open>\u0001\<close>. With
  the line parsed into the command \<^verbatim>\<open>PRIVMSG\<close> and the parameters \<^verbatim>\<open>#foo\<close> and
  \<^verbatim>\<open>\u0001ACTION waves\u0001\<close>, the action listener is the only one called, with
  channel \<^verbatim>\<open>#foo\<close>, and the text it receives is a space, \<^verbatim>\<open>waves\<close> and
  \<^verbatim>\<open>\u0001\<close>, not \<^verbatim>\<open>waves\<close>.
\<close>

theorem action_line_text:
  "doCallbacks (constParser actionMsg) listenClient actionLine
     = Inr (listenClient, [CallMsg Action 1 ''#foo'' Map.empty ('' waves'' @ [CHR 0x01])])
   \<and> '' waves'' @ [CHR 0x01] \<noteq> ''waves''"
  by (simp add: doCallbacks_def constParser_def actionMsg_def dispatch_def HasPrefix_def
        actionMarker_def keep_def doActionCallbacks_def index_def listenClient_def)

text \<open>
  The same holds whatever the parser, the tags and the listeners registered, as long
  as the line is read as that command with those two parameters: the calls made are
  those to the action listeners, in registration order.
\<close>

lemma action_line_listeners:
  assumes "NewMessage line = \<lparr>Command = ''PRIVMSG'',
      Params = [''#foo'', [CHR 0x01] @ ''ACTION waves'' @ [CHR 0x01]], Tags = tg, Nick = nk\<rparr>"
  shows "doCallbacks NewMessage c line
     = Inr (c, map (\<lambda>cb. CallMsg Action cb ''#foo'' tg ('' waves'' @ [CHR 0x01]))
                   (actionCallbacks c))"
  using assms
  by (simp add: doCallbacks_def dispatch_def HasPrefix_def actionMarker_def keep_def
        doActionCallbacks_def index_def forEach_total)

text \<open>
  Claim C3. The claim is that the reply to a PING echoes the payload exactly. The
  reply is formatted twice: \<^verbatim>\<open>doCallbacks\<close> passes the finished line to
  \<^verbatim>\<open>send\<close> as a format, so a payload with a percent sign is rewritten. For the
  line \<^verbatim>\<open>PING :%d\<close> on a connected client with room in its queue, the line
  enqueued is \<^verbatim>\<open>PONG :%!d(MISSING)\<close>, not \<^verbatim>\<open>PONG :%d\<close>.
\<close>

theorem ping_percent_reply:
  "doCallbacks (constParser (bareMsg ''PING'' [''%d''])) startedClient ''PING :%d''
     = Inr (startedClient\<lparr>sendQueue := QOpen [''JOIN #foo'', ''PONG :%!d(MISSING)'']\<rparr>, [])"
  by (simp add: doCallbacks_def constParser_def bareMsg_def dispatch_def index_def send_def
        Connected_def enqueue_def sendBufferSize_def startedClient_def)

text \<open>A payload without a percent sign is echoed, by exactly one enqueued line.\<close>

lemma ping_plain_reply:
  assumes "Command msg = ''PING''" and "Params msg = p # rest" and "CHR ''%'' \<notin> set p"
    and "connected c" and "sendQueue c = QOpen q" and "length q < sendBufferSize"
  shows "dispatch c msg = Inr (c\<lparr>sendQueue := QOpen (q @ [''PONG :'' @ p])\<rparr>, [])"
  using assms
  by (simp add: dispatch_def index_def send_def Connected_def enqueue_def Sprintf0_plain)

lemma unguarded_one:
  "length (Params msg) = 1 \<Longrightarrow> unguardedBody k msg = (\<lambda>cb. Inl (IndexOutOfRange 1))"
  by (auto simp: unguardedBody_def index_def fun_eq_iff)

lemma unguarded_none:
  "Params msg = [] \<Longrightarrow> unguardedBody k msg = (\<lambda>cb. Inl (IndexOutOfRange 0))"
  by (auto simp: unguardedBody_def index_def fun_eq_iff)

lemma guarded_nonempty:
  "Params msg \<noteq> [] \<Longrightarrow> guardedBody k msg
     = (\<lambda>cb. Inr (CallMsg k cb (Params msg ! 0) (Tags msg)
                      (if 1 < length (Params msg) then Params msg ! 1 else [])))"
  by (auto simp: guardedBody_def index_def fun_eq_iff)

lemma guarded_none:
  "Params msg = [] \<Longrightarrow> guardedBody k msg = (\<lambda>cb. Inl (IndexOutOfRange 0))"
  by (auto simp: guardedBody_def index_def fun_eq_iff)

text \<open>
  Claim C10, as stated, fails in one place: a PRIVMSG with no parameter at all (and
  no \<^verbatim>\<open>bits\<close> tag) does not reach \<^verbatim>\<open>Params[1]\<close> in the chat path, it fails on
  \<^verbatim>\<open>Params[0]\<close>, which is read first. The resub path, whose body index is guarded,
  fails on \<^verbatim>\<open>Params[0]\<close> too when the message has no parameter.
\<close>

theorem chat_without_parameters_counterexample:
  "dispatch listenClient (bareMsg ''PRIVMSG'' []) = Inl (IndexOutOfRange 0)
   \<and> dispatch listenClient (bareMsg ''PRIVMSG'' []) \<noteq> Inl (IndexOutOfRange 1)
   \<and> dispatch listenClient (userNotice ''resub'' []) = Inl (IndexOutOfRange 0)"
  by (simp add: bareMsg_def userNotice_def listenClient_def dispatch_def HasPrefix_def
        actionMarker_def keep_def doChatCallbacks_def doResubCallbacks_def
        unguardedBody_def guardedBody_def index_def)

text \<open>
  Claim C10, amended. Dispatch is not total. With a chat listener registered, a
  PRIVMSG with no \<^verbatim>\<open>bits\<close> tag (with fewer than two parameters its body is empty,
  so there is no ACTION marker) reaches an out-of-range access in the chat path: of
  \<^verbatim>\<open>Params[1]\<close> when it has exactly one parameter, of \<^verbatim>\<open>Params[0]\<close> when it has
  none. With a whisper listener registered, a WHISPER with fewer than two parameters
  reaches an out-of-range access of \<^verbatim>\<open>Params[1]\<close>. A PING without parameters
  reaches an out-of-range access of \<^verbatim>\<open>Params[0]\<close>. The notice path never panics
  and passes the empty string for a missing body. The resub, subscription and
  subgift paths guard the body index: they never fail on \<^verbatim>\<open>Params[1]\<close>, and with
  at least one parameter they return and pass the empty string for a missing body;
  their read of \<^verbatim>\<open>Params[0]\<close> is not guarded and is out of range when the message
  has no parameter and a listener is registered.
\<close>

theorem dispatch_not_total:
  "(Command msg = ''PRIVMSG'' \<and> Tags msg ''bits'' = None \<and> chatCallbacks c \<noteq> [] \<longrightarrow>
        (length (Params msg) = 1 \<longrightarrow> dispatch c msg = Inl (IndexOutOfRange 1))
        \<and> (Params msg = [] \<longrightarrow> dispatch c msg = Inl (IndexOutOfRange 0)))
   \<and> (Command msg = ''WHISPER'' \<and> length (Params msg) < 2 \<and> whisperCallbacks c \<noteq> []
      \<longrightarrow> dispatch c msg = Inl (IndexOutOfRange 1))
   \<and> (Command msg = ''PING'' \<and> Params msg = [] \<longrightarrow> dispatch c msg = Inl (IndexOutOfRange 0))
   \<and> (Command msg = ''NOTICE'' \<longrightarrow>
        dispatch c msg = Inr (c, map (\<lambda>cb. CallNotice cb
            (if 1 < length (Params msg) then Params msg ! 1 else [])) (noticeCallbacks c)))
   \<and> (Command msg = ''USERNOTICE'' \<and> Tags msg ''msg-id'' = Some ''resub'' \<longrightarrow>
        dispatch c msg \<noteq> Inl (IndexOutOfRange 1)
        \<and> (Params msg \<noteq> [] \<longrightarrow>
              dispatch c msg = Inr (c, map (\<lambda>cb. CallMsg Resub cb (Params msg ! 0) (Tags msg)
                  (if 1 < length (Params msg) then Params msg ! 1 else [])) (resubCallbacks c)))
        \<and> (Params msg = [] \<and> resubCallbacks c \<noteq> [] \<longrightarrow>
              dispatch c msg = Inl (IndexOutOfRange 0)))
   \<and> (Command msg = ''USERNOTICE'' \<and> Tags msg ''msg-id'' = Some ''sub'' \<longrightarrow>
        dispatch c msg \<noteq> Inl (IndexOutOfRange 1)
        \<and> (Params msg \<noteq> [] \<longrightarrow>
              dispatch c msg = Inr (c, map (\<lambda>cb. CallMsg Subscription cb (Params msg ! 0) (Tags msg)
                  (if 1 < length (Params msg) then Params msg ! 1 else [])) (subscriptionCallbacks c)))
        \<and> (Params msg = [] \<and> subscriptionCallbacks c \<noteq> [] \<longrightarrow>
              dispatch c msg = Inl (IndexOutOfRange 0)))
   \<and> (Command msg = ''USERNOTICE'' \<and> Tags msg ''msg-id'' = Some ''subgift'' \<longrightarrow>
        dispatch c msg \<noteq> Inl (IndexOutOfRange 1)
        \<and> (Params msg \<noteq> [] \<longrightarrow>
              dispatch c msg = Inr (c, map (\<lambda>cb. CallMsg SubGift cb (Params msg ! 0) (Tags msg)
                  (if 1 < length (Params msg) then Params msg ! 1 else [])) (subGiftCallbacks c)))
        \<and> (Params msg = [] \<and> subGiftCallbacks c \<noteq> [] \<longrightarrow>
              dispatch c msg = Inl (IndexOutOfRange 0)))"
proof -
  have chat1: "dispatch c msg = Inl (IndexOutOfRange 1)"
    if "Command msg = ''PRIVMSG''" "Tags msg ''bits'' = None" "chatCallbacks c \<noteq> []"
       "length (Params msg) = 1"
    using that
    by (simp add: dispatch_def HasPrefix_def actionMarker_def keep_def doChatCallbacks_def
          unguarded_one forEach_panic)
  have chat0: "dispatch c msg = Inl (IndexOutOfRange 0)"
    if "Command msg = ''PRIVMSG''" "Tags msg ''bits'' = None" "chatCallbacks c \<noteq> []"
       "Params msg = []"
    using that
    by (simp add: dispatch_def HasPrefix_def actionMarker_def keep_def doChatCallbacks_def
          unguarded_none forEach_panic)
  have whisper: "dispatch c msg = Inl (IndexOutOfRange 1)"
    if "Command msg = ''WHISPER''" "length (Params msg) < 2" "whisperCallbacks c \<noteq> []"
    using that
    by (simp add: dispatch_def keep_def doWhisperCallbacks_def index_def forEach_panic)
  have ping: "dispatch c msg = Inl (IndexOutOfRange 0)"
    if "Command msg = ''PING''" "Params msg = []"
    using that by (simp add: dispatch_def index_def)
  have notice: "dispatch c msg = Inr (c, map (\<lambda>cb. CallNotice cb
            (if 1 < length (Params msg) then Params msg ! 1 else [])) (noticeCallbacks c))"
    if "Command msg = ''NOTICE''"
    using that by (simp add: dispatch_def keep_def doNoticeCallbacks_def forEach_total)
  have resub: "dispatch c msg \<noteq> Inl (IndexOutOfRange 1)
        \<and> (Params msg \<noteq> [] \<longrightarrow>
              dispatch c msg = Inr (c, map (\<lambda>cb. CallMsg Resub cb (Params msg ! 0) (Tags msg)
                  (if 1 < length (Params msg) then Params msg ! 1 else [])) (resubCallbacks c)))
        \<and> (Params msg = [] \<and> resubCallbacks c \<noteq> [] \<longrightarrow>
              dispatch c msg = Inl (IndexOutOfRange 0))"
    if "Command msg = ''USERNOTICE''" "Tags msg ''msg-id'' = Some ''resub''"
  proof -
    have d: "dispatch c msg = keep c (forEach (resubCallbacks c) (guardedBody Resub msg))"
      using that by (simp add: dispatch_def doResubCallbacks_def)
    show ?thesis
    proof (cases "Params msg = []")
      case True
      then show ?thesis
        by (cases "resubCallbacks c = []") (simp_all add: d keep_def guarded_none forEach_panic)
    next
      case False
      then show ?thesis by (simp add: d keep_def guarded_nonempty forEach_total)
    qed
  qed
  have sub: "dispatch c msg \<noteq> Inl (IndexOutOfRange 1)
        \<and> (Params msg \<noteq> [] \<longrightarrow>
              dispatch c msg = Inr (c, map (\<lambda>cb. CallMsg Subscription cb (Params msg ! 0) (Tags msg)
                  (if 1 < length (Params msg) then Params msg ! 1 else [])) (subscriptionCallbacks c)))
        \<and> (Params msg = [] \<and> subscriptionCallbacks c \<noteq> [] \<longrightarrow>
              dispatch c msg = Inl (IndexOutOfRange 0))"
    if "Command msg = ''USERNOTICE''" "Tags msg ''msg-id'' = Some ''sub''"
  proof -
    have d: "dispatch c msg = keep c (forEach (subscriptionCallbacks c) (guardedBody Subscription msg))"
      using that by (simp add: dispatch_def doSubscriptionCallbacks_def)
    show ?thesis
    proof (cases "Params msg = []")
      case True
      then show ?thesis
        by (cases "subscriptionCallbacks c = []") (simp_all add: d keep_def guarded_none forEach_panic)
    next
      case False
      then show ?thesis by (simp add: d keep_def guarded_nonempty forEach_total)
    qed
  qed
  have gift: "dispatch c msg \<noteq> Inl (IndexOutOfRange 1)
        \<and> (Params msg \<noteq> [] \<longrightarrow>
              dispatch c msg = Inr (c, map (\<lambda>cb. CallMsg SubGift cb (Params msg ! 0) (Tags msg)
                  (if 1 < length (Params msg) then Params msg ! 1 else [])) (subGiftCallbacks c)))
        \<and> (Params msg = [] \<and> subGiftCallbacks c \<noteq> [] \<longrightarrow>
              dispatch c msg = Inl (IndexOutOfRange 0))"
    if "Command msg = ''USERNOTICE''" "Tags msg ''msg-id'' = Some ''subgift''"
  proof -
    have d: "dispatch c msg = keep c (forEach (subGiftCallbacks c) (guardedBody SubGift msg))"
      using that by (simp add: dispatch_def doSubGiftCallbacks_def)
    show ?thesis
    proof (cases "Params msg = []")
      case True
      then show ?thesis
        by (cases "subGiftCallbacks c = []") (simp_all add: d keep_def guarded_none forEach_panic)
    next
      case False
      then show ?thesis by (simp add: d keep_def guarded_nonempty forEach_total)
    qed
  qed
  from chat1 chat0 whisper ping notice resub sub gift show ?thesis by blast
qed

theorem dispatch_not_total_witness:
  "dispatch listenClient (bareMsg ''PRIVMSG'' [''#foo'']) = Inl (IndexOutOfRange 1)
   \<and> dispatch listenClient (bareMsg ''PRIVMSG'' []) = Inl (IndexOutOfRange 0)
   \<and> dispatch listenClient (bareMsg ''WHISPER'' [''nick'']) = Inl (IndexOutOfRange 1)
   \<and> dispatch listenClient (bareMsg ''PING'' []) = Inl (IndexOutOfRange 0)
   \<and> dispatch listenClient (bareMsg ''NOTICE'' [''*''])
       = Inr (listenClient, [CallNotice 4 []])
   \<and> dispatch listenClient (userNotice ''resub'' [''#foo''])
       = Inr (listenClient, [CallMsg Resub 3 ''#foo'' [''msg-id'' \<mapsto> ''resub''] []])
   \<and> dispatch listenClient (userNotice ''resub'' []) = Inl (IndexOutOfRange 0)
   \<and> dispatch listenClient (userNotice ''sub'' [''#foo''])
       = Inr (listenClient, [CallMsg Subscription 6 ''#foo'' [''msg-id'' \<mapsto> ''sub''] []])
   \<and> dispatch listenClient (userNotice ''sub'' []) = Inl (IndexOutOfRange 0)
   \<and> dispatch listenClient (userNotice ''subgift'' [''#foo''])
       = Inr (listenClient, [CallMsg SubGift 5 ''#foo'' [''msg-id'' \<mapsto> ''subgift''] []])
   \<and> dispatch listenClient (userNotice ''subgift'' []) = Inl (IndexOutOfRange 0)"
  using dispatch_not_total [of "bareMsg ''PRIVMSG'' [''#foo'']" listenClient]
        dispatch_not_total [of "bareMsg ''PRIVMSG'' []" listenClient]
        dispatch_not_total [of "bareMsg ''WHISPER'' [''nick'']" listenClient]
        dispatch_not_total [of "bareMsg ''PING'' []" listenClient]
        dispatch_not_total [of "bareMsg ''NOTICE'' [''*'']" listenClient]
        dispatch_not_total [of "userNotice ''resub'' [''#foo'']" listenClient]
        dispatch_not_total [of "userNotice ''resub'' []" listenClient]
        dispatch_not_total [of "userNotice ''sub'' [''#foo'']" listenClient]
        dispatch_not_total [of "userNotice ''sub'' []" listenClient]
        dispatch_not_total [of "userNotice ''subgift'' [''#foo'']" listenClient]
        dispatch_not_total [of "userNotice ''subgift'' []" listenClient]
  by (simp add: bareMsg_def userNotice_def listenClient_def)

subsection \<open>A handshake answered by something else than the welcome\<close>

text \<open>
  Claim C7. The claim is that a first line whose command is not \<^verbatim>\<open>001\<close> is
  dispatched and that \<^verbatim>\<open>Connect\<close> then returns an error carrying the line. The
  dispatcher indexes the parameters of a PING without a guard, so when the first
  line is a PING without parameters \<^verbatim>\<open>Connect\<close> panics instead of returning.
\<close>

theorem handshake_ping_panics:
  "Connect (constParser (bareMsg ''PING'' [])) (countingDial (exConn [''PING'' @ [CHR 0x0D, CHR 0x0A]] 5))
      0 (NewClient exOptions) ''nick'' ''oauth:x'' = Inl (IndexOutOfRange 0)"
  by (simp add: Connect_def doConnect_def countingDial_def NewClient_def exOptions_def exConn_def
        doPostConnect_def authenticate_def write_data_def read_line_def constParser_def bareMsg_def
        doCallbacks_def dispatch_def index_def)

text \<open>
  When the dispatch of the first line returns, the claim holds: the calls made are
  those of the dispatcher and \<^verbatim>\<open>Connect\<close> returns the error with the raw line.
\<close>

lemma enqueue_open:
  "enqueue c m = Inr c' \<Longrightarrow> sendQueue c = QOpen q \<Longrightarrow> \<exists>q'. sendQueue c' = QOpen q'"
  by (auto simp: enqueue_def split: if_splits)

lemma dispatch_open:
  assumes "dispatch c msg = Inr (c', calls)" and "sendQueue c = QOpen q"
  shows "\<exists>q'. sendQueue c' = QOpen q'"
proof -
  have "c' = c \<or> (\<exists>f. send c f = Inr c')"
    using assms(1) unfolding dispatch_def Let_def
    by (auto split: if_splits sum.splits dest!: keep_Inr)
  then show ?thesis
  proof
    assume "c' = c"
    with assms(2) show ?thesis by simp
  next
    assume "\<exists>f. send c f = Inr c'"
    then obtain f where "send c f = Inr c'" ..
    with assms(2) show ?thesis
      by (auto simp: send_def split: if_splits dest: enqueue_open)
  qed
qed

lemma handshake_unexpected_response:
  assumes nc: "\<not> connected c" and dial: "dial w = (w', Inr cn)" and wb: "0 < wbudget cn"
    and inb: "inbound cn = line # rest" and cmd: "Command (P line) \<noteq> ''001''"
    and c0: "c0 = c\<lparr>connected := True, doneChan := DoneOpen, sendQueue := QOpen [],
            conn := Some (cn\<lparr>
              written := written cn @ [''PASS '' @ pass @ [CHR 0x0D, CHR 0x0A] @ ''NICK '' @ nick
                                        @ [CHR 0x0D, CHR 0x0A]],
              wbudget := wbudget cn - 1, inbound := rest\<rparr>)\<rparr>"
    and disp: "dispatch c0 (P line) = Inr (c1, calls)"
  shows "\<exists>c2. Connect P dial w c nick pass = Inr (w', c2, calls, Failed (UnexpectedResponse line))"
proof -
  from c0 have "sendQueue c0 = QOpen []" by simp
  from dispatch_open[OF disp this] obtain q' where q': "sendQueue c1 = QOpen q'" ..
  have auth: "authenticate P (c\<lparr>connected := True, conn := Some cn, doneChan := DoneOpen,
        sendQueue := QOpen []\<rparr>) nick pass = Inr (c1, calls, Some (UnexpectedResponse line))"
    using wb inb cmd disp c0
    by (simp add: authenticate_def write_data_def read_line_def doCallbacks_def)
  have "Connect P dial w c nick pass
      = Inr (w', c1\<lparr>sendQueue := QClosed q'\<rparr>, calls, Failed (UnexpectedResponse line))"
    using nc dial auth q'
    by (simp add: Connect_def doConnect_def doPostConnect_def closeQueue_def)
  then show ?thesis ..
qed

subsection \<open>A handshake that fails\<close>

lemma connect_write_fails:
  assumes "\<not> connected c" and "dial w = (w', Inr cn)" and "wbudget cn = 0"
  shows "\<exists>c1. Connect P dial w c nick pass = Inr (w', c1, [], Failed WriteError)"
  using assms
  by (simp add: Connect_def doConnect_def doPostConnect_def authenticate_def write_data_def
        closeQueue_def)

lemma connect_read_fails:
  assumes "\<not> connected c" and "dial w = (w', Inr cn)" and "0 < wbudget cn"
    and "inbound cn = []"
  shows "\<exists>c1. Connect P dial w c nick pass = Inr (w', c1, [], Failed ReadError)"
  using assms
  by (simp add: Connect_def doConnect_def doPostConnect_def authenticate_def write_data_def
        read_line_def closeQueue_def)

lemma connect_cap_write_fails:
  assumes "\<not> connected c" and "dial w = (w', Inr cn)" and "wbudget cn = 1"
    and "inbound cn = line # rest" and "Command (P line) = ''001''"
  shows "\<exists>c1. Connect P dial w c nick pass = Inr (w', c1, [], Failed WriteError)"
  using assms
  by (simp add: Connect_def doConnect_def doPostConnect_def authenticate_def write_data_def
        read_line_def closeQueue_def)

lemma Failed_keeps_flag:
  assumes "\<not> connected c" and "dial w = (w', Inr cn)"
    and "Connect P dial w c nick pass = Inr (w1, c1, calls, Failed err)"
  shows "Connected c1
      \<and> (\<forall>P2 dial2 w2 nick2 pass2.
            Connect P2 dial2 (w2::'v) c1 nick2 pass2 = Inr (w2, c1, [], Failed AlreadyConnected))
      \<and> (\<exists>c2. Disconnect c1 = Inr c2 \<and> \<not> Connected c2)"
proof -
  from assms have p: "doPostConnect P (c\<lparr>connected := True\<rparr>) nick pass cn 19 30
      = Inr (c1, calls, Failed err)"
    by (auto simp: Connect_def doConnect_def split: sum.splits prod.splits)
  from doPostConnect_frame[OF p] have c1: "connected c1" "doneChan c1 = DoneOpen" by simp_all
  from c1 have d: "Disconnect c1 = Inr (c1\<lparr>connected := False, doneChan := DoneClosed\<rparr>)"
    by (simp add: Disconnect_def)
  from c1(1) have again: "\<forall>P2 dial2 w2 nick2 pass2.
          Connect P2 dial2 (w2::'v) c1 nick2 pass2 = Inr (w2, c1, [], Failed AlreadyConnected)"
    by (simp add: Connect_def doConnect_def)
  from c1(1) again d show ?thesis by (simp add: Connected_def)
qed

text \<open>
  Claim C8, as stated, fails for a first response that is not \<^verbatim>\<open>001\<close> and whose
  dispatch panics: the dial succeeds, the handshake does not, and \<^verbatim>\<open>Connect\<close>
  returns no error. With a chat listener registered and the first line
  \<^verbatim>\<open>PRIVMSG #foo\<close>, \<^verbatim>\<open>Connect\<close> panics on \<^verbatim>\<open>Params[1]\<close>.
\<close>

theorem failed_handshake_panic_counterexample:
  "\<not> connected chatClient
   \<and> countingDial (exConn [''PRIVMSG #foo'' @ [CHR 0x0D, CHR 0x0A]] 5) 0
       = (1, Inr (exConn [''PRIVMSG #foo'' @ [CHR 0x0D, CHR 0x0A]] 5))
   \<and> Command (constParser (bareMsg ''PRIVMSG'' [''#foo''])
         (''PRIVMSG #foo'' @ [CHR 0x0D, CHR 0x0A])) \<noteq> ''001''
   \<and> Connect (constParser (bareMsg ''PRIVMSG'' [''#foo'']))
        (countingDial (exConn [''PRIVMSG #foo'' @ [CHR 0x0D, CHR 0x0A]] 5)) 0 chatClient
        ''nick'' ''oauth:x'' = Inl (IndexOutOfRange 1)"
  by (simp add: Connect_def doConnect_def countingDial_def NewClient_def exOptions_def exConn_def
        doPostConnect_def authenticate_def write_data_def read_line_def constParser_def bareMsg_def
        doCallbacks_def dispatch_def HasPrefix_def actionMarker_def keep_def doChatCallbacks_def
        unguardedBody_def index_def chatClient_def)

text \<open>
  Claim C8, amended. When the dial succeeds and the handshake fails, by a write
  error (on the PASS/NICK line or on the capability request), by a read error, or
  by a first response that is not \<^verbatim>\<open>001\<close> and whose dispatch returns, then
  \<^verbatim>\<open>Connect\<close> returns the error (with the calls the dispatcher made) and the flag
  stays set: \<^verbatim>\<open>Connected()\<close> is true although no session runs, every further
  \<^verbatim>\<open>Connect\<close> returns \<open>AlreadyConnected\<close> without dialing and without changing the
  client, and \<^verbatim>\<open>Disconnect\<close> clears the flag.
\<close>

theorem failed_handshake_stays_connected:
  assumes "\<not> connected c" and "dial w = (w', Inr cn)"
    and "(wbudget cn = 0 \<and> err = WriteError \<and> calls = [])
       \<or> (0 < wbudget cn \<and> inbound cn = [] \<and> err = ReadError \<and> calls = [])
       \<or> (\<exists>line rest. wbudget cn = 1 \<and> inbound cn = line # rest \<and> Command (P line) = ''001''
             \<and> err = WriteError \<and> calls = [])
       \<or> (\<exists>line rest cd. 0 < wbudget cn \<and> inbound cn = line # rest
             \<and> Command (P line) \<noteq> ''001''
             \<and> dispatch (c\<lparr>connected := True, doneChan := DoneOpen, sendQueue := QOpen [],
                    conn := Some (cn\<lparr>
                      written := written cn @ [''PASS '' @ pass @ [CHR 0x0D, CHR 0x0A]
                                                @ ''NICK '' @ nick @ [CHR 0x0D, CHR 0x0A]],
                      wbudget := wbudget cn - 1, inbound := rest\<rparr>)\<rparr>) (P line)
                 = Inr (cd, calls)
             \<and> err = UnexpectedResponse line)"
  shows "\<exists>c1. Connect P dial w c nick pass = Inr (w', c1, calls, Failed err)
      \<and> Connected c1
      \<and> (\<forall>P2 dial2 w2 nick2 pass2.
            Connect P2 dial2 (w2::'v) c1 nick2 pass2 = Inr (w2, c1, [], Failed AlreadyConnected))
      \<and> (\<exists>c2. Disconnect c1 = Inr c2 \<and> \<not> Connected c2)"
proof -
  have "\<exists>c1. Connect P dial w c nick pass = Inr (w', c1, calls, Failed err)"
    using assms(3)
  proof (elim disjE conjE exE)
    assume a: "wbudget cn = 0" "err = WriteError" "calls = []"
    from assms(1,2) a(1)
    have "\<exists>c1. Connect P dial w c nick pass = Inr (w', c1, [], Failed WriteError)"
      by (rule connect_write_fails)
    with a show ?thesis by simp
  next
    assume a: "0 < wbudget cn" "inbound cn = []" "err = ReadError" "calls = []"
    from assms(1,2) a(1,2)
    have "\<exists>c1. Connect P dial w c nick pass = Inr (w', c1, [], Failed ReadError)"
      by (rule connect_read_fails)
    with a show ?thesis by simp
  next
    fix line rest
    assume a: "wbudget cn = 1" "inbound cn = line # rest" "Command (P line) = ''001''"
      "err = WriteError" "calls = []"
    from assms(1,2) a(1,2,3)
    have "\<exists>c1. Connect P dial w c nick pass = Inr (w', c1, [], Failed WriteError)"
      by (rule connect_cap_write_fails)
    with a show ?thesis by simp
  next
    fix line rest cd
    assume a: "0 < wbudget cn" "inbound cn = line # rest" "Command (P line) \<noteq> ''001''"
      "dispatch (c\<lparr>connected := True, doneChan := DoneOpen, sendQueue := QOpen [],
                    conn := Some (cn\<lparr>
                      written := written cn @ [''PASS '' @ pass @ [CHR 0x0D, CHR 0x0A]
                                                @ ''NICK '' @ nick @ [CHR 0x0D, CHR 0x0A]],
                      wbudget := wbudget cn - 1, inbound := rest\<rparr>)\<rparr>) (P line)
                 = Inr (cd, calls)"
      "err = UnexpectedResponse line"
    from assms(1,2) a(1,2,3) refl a(4)
    have "\<exists>c1. Connect P dial w c nick pass
        = Inr (w', c1, calls, Failed (UnexpectedResponse line))"
      by (rule handshake_unexpected_response)
    with a(5) show ?thesis by simp
  qed
  then obtain c1 where r: "Connect P dial w c nick pass = Inr (w', c1, calls, Failed err)" ..
  from assms(1,2) r
  have "Connected c1
      \<and> (\<forall>P2 dial2 w2 nick2 pass2.
            Connect P2 dial2 (w2::'v) c1 nick2 pass2 = Inr (w2, c1, [], Failed AlreadyConnected))
      \<and> (\<exists>c2. Disconnect c1 = Inr c2 \<and> \<not> Connected c2)"
    by (rule Failed_keeps_flag)
  with r show ?thesis by blast
qed

theorem failed_handshake_stays_connected_witness:
  "(\<exists>c1. Connect (constParser welcomeMsg) (countingDial (exConn [welcomeLine] 0)) 0 (NewClient exOptions)
            ''nick'' ''oauth:x'' = Inr (1, c1, [], Failed WriteError)
        \<and> Connected c1
        \<and> Connect (constParser welcomeMsg) (countingDial (exConn [welcomeLine] 0)) (7::nat) c1 ''nick'' ''oauth:x''
            = Inr (7, c1, [], Failed AlreadyConnected)
        \<and> (\<exists>c2. Disconnect c1 = Inr c2 \<and> \<not> Connected c2))
   \<and> (\<exists>c1. Connect (constParser welcomeMsg) (countingDial (exConn [] 5)) 0 (NewClient exOptions)
            ''nick'' ''oauth:x'' = Inr (1, c1, [], Failed ReadError)
        \<and> Connected c1
        \<and> Connect (constParser welcomeMsg) (countingDial (exConn [] 5)) (7::nat) c1 ''nick'' ''oauth:x''
            = Inr (7, c1, [], Failed AlreadyConnected)
        \<and> (\<exists>c2. Disconnect c1 = Inr c2 \<and> \<not> Connected c2))
   \<and> (\<exists>c1. Connect (constParser welcomeMsg) (countingDial (exConn [welcomeLine] 1)) 0 (NewClient exOptions)
            ''nick'' ''oauth:x'' = Inr (1, c1, [], Failed WriteError)
        \<and> Connected c1
        \<and> Connect (constParser welcomeMsg) (countingDial (exConn [welcomeLine] 1)) (7::nat) c1 ''nick'' ''oauth:x''
            = Inr (7, c1, [], Failed AlreadyConnected)
        \<and> (\<exists>c2. Disconnect c1 = Inr c2 \<and> \<not> Connected c2))
   \<and> (\<exists>c1. Connect (constParser noticeMsg) (countingDial (exConn [noticeLine] 5)) 0 (NewClient exOptions)
            ''nick'' ''oauth:x'' = Inr (1, c1, [], Failed (UnexpectedResponse noticeLine))
        \<and> Connected c1
        \<and> Connect (constParser noticeMsg) (countingDial (exConn [noticeLine] 5)) (7::nat) c1 ''nick'' ''oauth:x''
            = Inr (7, c1, [], Failed AlreadyConnected)
        \<and> (\<exists>c2. Disconnect c1 = Inr c2 \<and> \<not> Connected c2))"
proof -
  have nc: "\<not> connected (NewClient exOptions)" by (simp add: NewClient_def)
  have d: "countingDial cn 0 = (1, Inr cn)" for cn by (simp add: countingDial_def)
  have h1: "(wbudget (exConn [welcomeLine] 0) = 0 \<and> WriteError = WriteError
        \<and> ([]::call list) = [])" by (simp add: exConn_def)
  have h2: "0 < wbudget (exConn [] 5) \<and> inbound (exConn [] 5) = [] \<and> ReadError = ReadError
        \<and> ([]::call list) = []" by (simp add: exConn_def)
  have h3: "\<exists>line rest. wbudget (exConn [welcomeLine] 1) = 1
        \<and> inbound (exConn [welcomeLine] 1) = line # rest
        \<and> Command (constParser welcomeMsg line) = ''001''
        \<and> WriteError = WriteError \<and> ([]::call list) = []"
    by (simp add: exConn_def constParser_def welcomeMsg_def)
  have h4: "\<exists>line rest cd. 0 < wbudget (exConn [noticeLine] 5)
        \<and> inbound (exConn [noticeLine] 5) = line # rest
        \<and> Command (constParser noticeMsg line) \<noteq> ''001''
        \<and> dispatch ((NewClient exOptions)\<lparr>connected := True, doneChan := DoneOpen,
                 sendQueue := QOpen [],
                 conn := Some ((exConn [noticeLine] 5)\<lparr>
                   written := written (exConn [noticeLine] 5)
                      @ [''PASS '' @ ''oauth:x'' @ [CHR 0x0D, CHR 0x0A]
                           @ ''NICK '' @ ''nick'' @ [CHR 0x0D, CHR 0x0A]],
                   wbudget := wbudget (exConn [noticeLine] 5) - 1, inbound := rest\<rparr>)\<rparr>)
              (constParser noticeMsg line) = Inr (cd, [])
        \<and> UnexpectedResponse noticeLine = UnexpectedResponse line"
    by (simp add: exConn_def constParser_def noticeMsg_def bareMsg_def dispatch_def keep_def
          doNoticeCallbacks_def NewClient_def)
  from failed_handshake_stays_connected [where 'v = nat and c = "NewClient exOptions"
      and dial = "countingDial (exConn [welcomeLine] 0)" and w = 0 and w' = 1
      and cn = "exConn [welcomeLine] 0" and err = "WriteError" and calls = "[]"
      and P = "constParser welcomeMsg" and pass = "''oauth:x''" and nick = "''nick''",
      OF nc d, OF disjI1, OF h1]
  have r1: "(\<exists>c1. Connect (constParser welcomeMsg) (countingDial (exConn [welcomeLine] 0)) 0 (NewClient exOptions)
            ''nick'' ''oauth:x'' = Inr (1, c1, [], Failed WriteError)
        \<and> Connected c1
        \<and> Connect (constParser welcomeMsg) (countingDial (exConn [welcomeLine] 0)) (7::nat) c1 ''nick'' ''oauth:x''
            = Inr (7, c1, [], Failed AlreadyConnected)
        \<and> (\<exists>c2. Disconnect c1 = Inr c2 \<and> \<not> Connected c2))"
    by blast
  from failed_handshake_stays_connected [where 'v = nat and c = "NewClient exOptions"
      and dial = "countingDial (exConn [] 5)" and w = 0 and w' = 1
      and cn = "exConn [] 5" and err = "ReadError" and calls = "[]"
      and P = "constParser welcomeMsg" and pass = "''oauth:x''" and nick = "''nick''",
      OF nc d, OF disjI2, OF disjI1, OF h2]
  have r2: "(\<exists>c1. Connect (constParser welcomeMsg) (countingDial (exConn [] 5)) 0 (NewClient exOptions)
            ''nick'' ''oauth:x'' = Inr (1, c1, [], Failed ReadError)
        \<and> Connected c1
        \<and> Connect (constParser welcomeMsg) (countingDial (exConn [] 5)) (7::nat) c1 ''nick'' ''oauth:x''
            = Inr (7, c1, [], Failed AlreadyConnected)
        \<and> (\<exists>c2. Disconnect c1 = Inr c2 \<and> \<not> Connected c2))"
    by blast
  from failed_handshake_stays_connected [where 'v = nat and c = "NewClient exOptions"
      and dial = "countingDial (exConn [welcomeLine] 1)" and w = 0 and w' = 1
      and cn = "exConn [welcomeLine] 1" and err = "WriteError" and calls = "[]"
      and P = "constParser welcomeMsg" and pass = "''oauth:x''" and nick = "''nick''",
      OF nc d, OF disjI2, OF disjI2, OF disjI1, OF h3]
  have r3: "(\<exists>c1. Connect (constParser welcomeMsg) (countingDial (exConn [welcomeLine] 1)) 0 (NewClient exOptions)
            ''nick'' ''oauth:x'' = Inr (1, c1, [], Failed WriteError)
        \<and> Connected c1
        \<and> Connect (constParser welcomeMsg) (countingDial (exConn [welcomeLine] 1)) (7::nat) c1 ''nick'' ''oauth:x''
            = Inr (7, c1, [], Failed AlreadyConnected)
        \<and> (\<exists>c2. Disconnect c1 = Inr c2 \<and> \<not> Connected c2))"
    by blast
  from failed_handshake_stays_connected [where 'v = nat and c = "NewClient exOptions"
      and dial = "countingDial (exConn [noticeLine] 5)" and w = 0 and w' = 1
      and cn = "exConn [noticeLine] 5" and err = "UnexpectedResponse noticeLine" and calls = "[]"
      and P = "constParser noticeMsg" and pass = "''oauth:x''" and nick = "''nick''",
      OF nc d, OF disjI2, OF disjI2, OF disjI2, OF h4]
  have r4: "(\<exists>c1. Connect (constParser noticeMsg) (countingDial (exConn [noticeLine] 5)) 0 (NewClient exOptions)
            ''nick'' ''oauth:x'' = Inr (1, c1, [], Failed (UnexpectedResponse noticeLine))
        \<and> Connected c1
        \<and> Connect (constParser noticeMsg) (countingDial (exConn [noticeLine] 5)) (7::nat) c1 ''nick'' ''oauth:x''
            = Inr (7, c1, [], Failed AlreadyConnected)
        \<and> (\<exists>c2. Disconnect c1 = Inr c2 \<and> \<not> Connected c2))"
    by blast
  from r1 r2 r3 r4 show ?thesis by blast
qed

subsection \<open>Say and Whisper\<close>

text \<open>
  Claim C9, as stated, fails: a handshake that fails leaves the flag set and the
  send queue closed, and there \<^verbatim>\<open>Say\<close> with the non-empty channel \<^verbatim>\<open>#foo\<close>
  panics on a send on a closed channel, as does \<^verbatim>\<open>Whisper\<close>.
\<close>

theorem Say_closed_counterexample:
  "Connect (constParser welcomeMsg) (countingDial (exConn [welcomeLine] 0)) 0 (NewClient exOptions)
      ''nick'' ''oauth:x'' = Inr (1, failedClient, [], Failed WriteError)
   \<and> Say failedClient ''#foo'' ''hi'' = Inl SendOnClosedChannel
   \<and> Whisper failedClient ''someone'' ''hi'' = Inl SendOnClosedChannel"
  using ex_Connect_failed
  by (simp add: Say_def Whisper_def index_def send_def Connected_def enqueue_def
        failedClient_def)

lemma enqueue_total: "\<forall>q. sendQueue c \<noteq> QClosed q \<Longrightarrow> \<exists>c'. enqueue c m = Inr c'"
  by (cases "sendQueue c") (auto simp: enqueue_def)

lemma send_total:
  "\<not> Connected c \<or> (\<forall>q. sendQueue c \<noteq> QClosed q) \<Longrightarrow> \<exists>c'. send c f = Inr c'"
  using enqueue_total[of c] by (auto simp: send_def)

text \<open>
  Claim C9, amended. \<^verbatim>\<open>Say\<close> with the empty channel panics on \<^verbatim>\<open>channel[0]\<close>
  whatever the connection state. With a non-empty channel \<^verbatim>\<open>Say\<close> returns
  normally whenever the client is not flagged connected or its send queue is not
  closed, and so does \<^verbatim>\<open>Whisper\<close>, whose channel is \<^verbatim>\<open>#jtv\<close>.
\<close>

theorem Say_panics_only:
  "Say c [] msg = Inl (IndexOutOfRange 0)
   \<and> (channel \<noteq> [] \<and> (\<not> Connected c \<or> (\<forall>q. sendQueue c \<noteq> QClosed q))
        \<longrightarrow> (\<exists>c'. Say c channel msg = Inr c'))
   \<and> (\<not> Connected c \<or> (\<forall>q. sendQueue c \<noteq> QClosed q)
        \<longrightarrow> (\<exists>c'. Whisper c user msg = Inr c'))"
proof -
  have a: "Say c [] msg = Inl (IndexOutOfRange 0)" by (simp add: Say_def index_def)
  have b: "\<exists>c'. Say c ch msg' = Inr c'"
    if "ch \<noteq> []" "\<not> Connected c \<or> (\<forall>q. sendQueue c \<noteq> QClosed q)" for ch msg'
    using that send_total[of c] by (simp add: Say_def index_def Let_def)
  from a b show ?thesis by (simp add: Whisper_def)
qed

theorem Say_panics_only_witness:
  "Say startedClient [] ''hi'' = Inl (IndexOutOfRange 0)
   \<and> Say startedClient ''foo'' ''hi''
       = Inr (startedClient\<lparr>sendQueue := QOpen [''JOIN #foo'', ''PRIVMSG #foo :hi'']\<rparr>)
   \<and> Whisper startedClient ''bob'' ''hi''
       = Inr (startedClient\<lparr>sendQueue := QOpen [''JOIN #foo'', ''PRIVMSG #jtv :/w bob hi'']\<rparr>)"
proof -
  have h: "\<not> Connected startedClient \<or> (\<forall>q. sendQueue startedClient \<noteq> QClosed q)"
    by (simp add: startedClient_def)
  have n: "''foo'' \<noteq> []" by simp
  from Say_panics_only [of startedClient "''hi''" "''foo''" "''bob''"] h n
  have "\<exists>c'. Say startedClient ''foo'' ''hi'' = Inr c'"
    and "\<exists>c'. Whisper startedClient ''bob'' ''hi'' = Inr c'"
    and "Say startedClient [] ''hi'' = Inl (IndexOutOfRange 0)"
    by blast+
  then show ?thesis
    by (simp add: Say_def Whisper_def index_def send_def Connected_def enqueue_def
          sendBufferSize_def startedClient_def)
qed

subsection \<open>The token bucket\<close>

lemma refill_tokens_left:
  "1 \<le> k \<Longrightarrow> k \<le> 19 \<Longrightarrow>
   refill 19 30 \<lparr>tokens = of_nat k, lastTick = t\<rparr> t = (of_nat k, 0)"
  by (auto simp: refill_def Let_def)

lemma refill_no_tokens:
  "refill 19 30 \<lparr>tokens = 0, lastTick = t\<rparr> t = (0, 1000000000)"
  by (simp add: refill_def Let_def)

lemma sendLoop_step:
  assumes "conn c = Some cn" and "0 < wbudget cn" and "sendQueue c = QOpen (x # xs)"
    and "refill mx per b now = (tk, sl)"
  shows "sendLoop mx per b c (Deliver now # ws) =
     (case sendLoop mx per \<lparr>tokens = tk - 1, lastTick = now\<rparr>
             (c\<lparr>sendQueue := QOpen xs,
                conn := Some (cn\<lparr>written := written cn @
                    [if \<not> HasSuffix x [CHR 0x0D, CHR 0x0A] then x @ [CHR 0x0D, CHR 0x0A] else x],
                  wbudget := wbudget cn - 1\<rparr>)\<rparr>) ws of
        Inl p \<Rightarrow> Inl p
      | Inr (c2, sends, returned) \<Rightarrow> Inr (c2, (tk, sl) # sends, returned))"
  using assms by (simp add: write_data_def Let_def)

lemma sendLoop_burst:
  assumes "conn c = Some cn" and "k < wbudget cn" and "sendQueue c = QOpen q"
    and "k < length q" and "k \<le> 19"
  shows "\<exists>c'. sendLoop 19 30 \<lparr>tokens = of_nat k, lastTick = t\<rparr> c (replicate (Suc k) (Deliver t))
     = Inr (c', map (\<lambda>j. (of_nat j, 0)) (rev [1..<Suc k]) @ [(0, 1000000000)], False)"
  using assms
proof (induction k arbitrary: c cn q)
  case 0
  then obtain x xs where q: "q = x # xs" by (cases q) auto
  from 0 q have "0 < wbudget cn" "sendQueue c = QOpen (x # xs)" by simp_all
  from sendLoop_step[OF "0.prems"(1) this refill_no_tokens, of t "[]"]
  show ?case by simp
next
  case (Suc k)
  then obtain x xs where q: "q = x # xs" by (cases q) auto
  let ?c1 = "c\<lparr>sendQueue := QOpen xs,
                conn := Some (cn\<lparr>written := written cn @
                    [if \<not> HasSuffix x [CHR 0x0D, CHR 0x0A] then x @ [CHR 0x0D, CHR 0x0A] else x],
                  wbudget := wbudget cn - 1\<rparr>)\<rparr>"
  from Suc.prems q have w: "0 < wbudget cn" and sq: "sendQueue c = QOpen (x # xs)" by simp_all
  have r: "refill 19 30 \<lparr>tokens = of_nat (Suc k), lastTick = t\<rparr> t = (of_nat (Suc k), 0)"
    using Suc.prems(5) by (intro refill_tokens_left) simp_all
  have "\<exists>c'. sendLoop 19 30 \<lparr>tokens = of_nat k, lastTick = t\<rparr> ?c1 (replicate (Suc k) (Deliver t))
     = Inr (c', map (\<lambda>j. (of_nat j, 0)) (rev [1..<Suc k]) @ [(0, 1000000000)], False)"
    using Suc.prems q by (intro Suc.IH[of ?c1 _ xs]) auto
  then obtain c' where ih: "sendLoop 19 30 \<lparr>tokens = of_nat k, lastTick = t\<rparr> ?c1
        (replicate (Suc k) (Deliver t))
     = Inr (c', map (\<lambda>j. (of_nat j, 0)) (rev [1..<Suc k]) @ [(0, 1000000000)], False)" ..
  have tk: "(of_nat (Suc k) :: rat) - 1 = of_nat k" by simp
  have "sendLoop 19 30 \<lparr>tokens = of_nat (Suc k), lastTick = t\<rparr> c
          (replicate (Suc (Suc k)) (Deliver t))
     = Inr (c', (of_nat (Suc k), 0) # map (\<lambda>j. (of_nat j, 0)) (rev [1..<Suc k])
                  @ [(0, 1000000000)], False)"
    using sendLoop_step[OF Suc.prems(1) w sq r, of "replicate (Suc k) (Deliver t)"] ih
    unfolding tk by simp
  then show ?case by auto
qed

text \<open>
  Claim C1. With capacity 19 and window 30 seconds, a fresh send loop (19 tokens)
  that processes 20 queued lines with no time elapsed between them computes a
  sleep of zero for each of the first 19 sends; at the 20th the bucket holds 0
  tokens and the sleep computed is one second, which is at least the deficit
  \<open>1 - tokens\<close> in seconds.
\<close>

theorem burst_of_twenty:
  assumes "conn c = Some cn" and "20 \<le> wbudget cn" and "sendQueue c = QOpen q"
    and "20 \<le> length q"
  shows "\<exists>c' sends. startSendLoop 19 30 c t (replicate 20 (Deliver t)) = Inr (c', sends, False)
    \<and> length sends = 20
    \<and> (\<forall>i<19. snd (sends ! i) = 0)
    \<and> fst (sends ! 19) = 0 \<and> snd (sends ! 19) = 1000000000
    \<and> of_int (snd (sends ! 19)) \<ge> (1 - fst (sends ! 19)) * 1000000000"
proof -
  from assms have "19 < wbudget cn" "19 < length q" "(19::nat) \<le> 19" by simp_all
  from sendLoop_burst[OF assms(1) this(1) assms(3) this(2) this(3), of t]
  obtain c' where l: "sendLoop 19 30 \<lparr>tokens = of_nat 19, lastTick = t\<rparr> c
        (replicate (Suc 19) (Deliver t))
     = Inr (c', map (\<lambda>j. (of_nat j, 0)) (rev [1..<Suc 19]) @ [(0, 1000000000)], False)" ..
  let ?sends = "map (\<lambda>j. (of_nat j :: rat, 0::int)) (rev [1..<Suc 19]) @ [(0, 1000000000)]"
  have s: "startSendLoop 19 30 c t (replicate 20 (Deliver t)) = Inr (c', ?sends, False)"
    using l assms(1) by (simp add: startSendLoop_def)
  have len: "length ?sends = 20" by simp
  have z: "\<forall>i<19. snd (?sends ! i) = 0"
    by (auto simp: nth_append)
  have last: "?sends ! 19 = (0, 1000000000)"
    by (simp add: nth_append)
  from s len z last show ?thesis by (intro exI[of _ c'] exI[of _ ?sends]) simp
qed

theorem burst_of_twenty_witness:
  "conn burstClient = Some (exConn [] 25) \<and> 20 \<le> wbudget (exConn [] 25)
   \<and> sendQueue burstClient = QOpen (replicate 20 ''PRIVMSG #foo :hi'')
   \<and> 20 \<le> length (replicate 20 ''PRIVMSG #foo :hi'')
   \<and> (\<exists>c' sends. startSendLoop 19 30 burstClient 0 (replicate 20 (Deliver 0))
          = Inr (c', sends, False)
        \<and> length sends = 20 \<and> (\<forall>i<19. snd (sends ! i) = 0)
        \<and> fst (sends ! 19) = 0 \<and> snd (sends ! 19) = 1000000000
        \<and> of_int (snd (sends ! 19)) \<ge> (1 - fst (sends ! 19)) * 1000000000)"
proof -
  have h1: "conn burstClient = Some (exConn [] 25)" by (simp add: burstClient_def)
  have h2: "20 \<le> wbudget (exConn [] 25)" by (simp add: exConn_def)
  have h3: "sendQueue burstClient = QOpen (replicate 20 ''PRIVMSG #foo :hi'')"
    by (simp add: burstClient_def)
  have h4: "20 \<le> length (replicate 20 ''PRIVMSG #foo :hi'')" by simp
  from burst_of_twenty [OF h1 h2 h3 h4, of 0] h1 h2 h3 h4 show ?thesis by blast
qed

end
